theory Spec2Isabelle
  imports Main
begin

section \<open>JavaScript values the two classes rely on\<close>

text \<open>
  Numbers of the source (counters, millisecond positions, close codes) are modelled as
  unbounded integers: every number the code computes with is an integer far below
  \<open>2^53\<close>, where the arithmetic of doubles is exact.

  A reference that may be \<^verbatim>\<open>undefined\<close> or \<^verbatim>\<open>null\<close> keeps the two apart, because
  the source compares with \<^verbatim>\<open>=== null\<close> in some places and tests truthiness in others.
\<close>

datatype 'a Ref = Undefined | Null | Obj 'a

fun truthy_ref :: "'a Ref \<Rightarrow> bool" where
  "truthy_ref (Obj x) = True"
| "truthy_ref Undefined = False"
| "truthy_ref Null = False"

datatype JsValue = JsUndefined | JsBool bool | JsNumber int | JsString string

text \<open>
  Exceptions. \<open>Error\<close> and \<open>TypeError\<close> are the ones the source constructs with a
  message; \<open>TypeError_reading prop\<close> is the TypeError the engine raises when property
  \<open>prop\<close> is read from \<^verbatim>\<open>undefined\<close> or \<^verbatim>\<open>null\<close>; \<open>SyntaxError\<close> is the one
  \<^verbatim>\<open>JSON.parse\<close> raises.
\<close>

datatype JsError = Error string | TypeError string | TypeError_reading string | SyntaxError

text \<open>
  The outcome of running a method: the object after the call and the effects the call
  had on the outside, in order; \<open>Throws\<close> when an exception left the method (the
  mutations made before it stay).
\<close>

datatype ('s, 'e) outcome =
    Returns (state_of: 's) (effects_of: "'e list")
  | Throws JsError (state_of: 's) (effects_of: "'e list")

fun then_do :: "('s, 'e) outcome \<Rightarrow> ('s \<Rightarrow> ('s, 'e) outcome) \<Rightarrow> ('s, 'e) outcome" where
  "then_do (Returns s es) f =
     (case f s of
        Returns s' es' \<Rightarrow> Returns s' (es @ es')
      | Throws x s' es' \<Rightarrow> Throws x s' (es @ es'))"
| "then_do (Throws x s es) f = Throws x s es"

fun returned :: "('s, 'e) outcome \<Rightarrow> bool" where
  "returned (Returns s es) = True"
| "returned (Throws x s es) = False"

text \<open>Decimal text of a number, as a template literal prints it.\<close>

fun digits :: "nat \<Rightarrow> string" where
  "digits n =
     (if n < 10 then [char_of (48 + n)]
      else digits (n div 10) @ [char_of (48 + n mod 10)])"

declare digits.simps [simp del]

section \<open>Messages on the wire\<close>

text \<open>
  The objects handed to \<^verbatim>\<open>Node.send\<close>, one constructor per \<^verbatim>\<open>op\<close>. The play command
  carries the optional \<^verbatim>\<open>startTime\<close>, \<^verbatim>\<open>endTime\<close> and \<^verbatim>\<open>noReplace\<close>; the voice update
  carries the keys and values of the session's voice state.
\<close>

datatype Payload =
    destroy string
  | play string string "int option" "int option" "bool option"
  | stop string
  | pause string bool
  | seek string int
  | voiceUpdate string "(string \<times> string) list"
  | configureResuming string int

datatype Json = Json string

datatype Event =
    nodeConnect
  | nodeDisconnect
  | nodeResume
  | nodeError JsError
  | raw Json

text \<open>
  What a Node does to the outside: a notification to the event sink, the calls on its
  WebSocket, and the timer of the reconnect (\<open>SetTimeout ms\<close> stands for
  \<^verbatim>\<open>setTimeout(() => this.connect(), ms)\<close>, the only timer the class sets).
  \<open>WsSend p\<close> is \<^verbatim>\<open>ws.send(JSON.stringify(p))\<close>.
\<close>

datatype NodeEffect =
    Emit Event
  | WsOpen string "(string \<times> string) list"
  | WsClose nat string
  | WsSend Payload
  | WsRemoveAllListeners
  | SetTimeout int

section \<open>Node.ts\<close>

datatype NodeState = NodeState_CONNECTING | NodeState_CONNECTED | NodeState_DISCONNECTED

text \<open>
  \<^verbatim>\<open>NodeOptions\<close> is declared in the module \<^verbatim>\<open>./@types\<close>; these are the fields the
  class reads. An optional field is an \<open>option\<close>.
\<close>

record NodeOptions =
  id' :: "string option"
  hostname :: string
  port :: nat
  secure :: "bool option"
  password :: string
  resumeKey :: "string option"
  resumeTimeout :: "int option"
  maxRetryAttempts :: "int option"
  retryAttemptsInterval :: "int option"

text \<open>
  The transport handle: the address and headers it was opened with, and its
  \<^verbatim>\<open>readyState\<close> (0 CONNECTING, 1 OPEN, 2 CLOSING, 3 CLOSED), which the WebSocket
  library moves on as the connection opens and closes.
\<close>

record WebSocket =
  url :: string
  headers :: "(string \<times> string) list"
  readyState :: nat

text \<open>
  The property \<^verbatim>\<open>OPEN\<close> of a handle, the one property the class reads. In the WebSocket
  interface it is the constant that names the ready state OPEN: it is 1 on every handle,
  whatever the \<^verbatim>\<open>readyState\<close> of the handle is.
\<close>

definition OPEN :: "WebSocket \<Rightarrow> int" where
  "OPEN w = 1"

text \<open>
  What the class reaches outside itself: the client id of the owning \<^verbatim>\<open>Vulkava\<close>, the
  library's \<^verbatim>\<open>VERSION\<close>, the WebSocket constructor and \<^verbatim>\<open>JSON.parse\<close> (\<open>None\<close> when
  the text is not JSON).
\<close>

record Env =
  clientId :: string
  VERSION :: string
  new_WebSocket :: "string \<Rightarrow> (string \<times> string) list \<Rightarrow> WebSocket"
  JSON_parse :: "string \<Rightarrow> Json option"

record Node =
  resumed :: "bool option"
  options :: NodeOptions
  ws :: "WebSocket option"
  retryAttempts :: int
  state :: NodeState

definition Node_new :: "NodeOptions \<Rightarrow> Node" where
  "Node_new opts =
     \<lparr> resumed = None, options = opts, ws = None,
       retryAttempts = - 1, state = NodeState_DISCONNECTED \<rparr>"

definition Node_identifier :: "Node \<Rightarrow> string" where
  "Node_identifier n = (case id' (options n) of Some i \<Rightarrow> i | None \<Rightarrow> hostname (options n))"

fun truthy_string :: "string option \<Rightarrow> bool" where
  "truthy_string None = False"
| "truthy_string (Some s) = (s \<noteq> [])"

definition connect_headers :: "Env \<Rightarrow> Node \<Rightarrow> (string \<times> string) list" where
  "connect_headers env n =
     [(''Authorization'', password (options n)),
      (''User-Id'', clientId env),
      (''Client-Name'', ''Vulkava/'' @ VERSION env)]
     @ (case resumeKey (options n) of
          Some k \<Rightarrow> if truthy_string (Some k) then [(''Resume-Key'', k)] else []
        | None \<Rightarrow> [])"

definition connect_url :: "Node \<Rightarrow> string" where
  "connect_url n =
     ''ws'' @ (if secure (options n) = Some True then ''s'' else '''') @ ''://''
       @ hostname (options n) @ '':'' @ digits (port (options n))"

definition Node_connect :: "Env \<Rightarrow> Node \<Rightarrow> (Node, NodeEffect) outcome" where
  "Node_connect env n =
     (if state n \<noteq> NodeState_DISCONNECTED then Returns n []
      else
        let n1 = n\<lparr> retryAttempts := retryAttempts n + 1 \<rparr>;
            n2 = n1\<lparr> state := NodeState_CONNECTING \<rparr>;
            hs = connect_headers env n2;
            u = connect_url n2
        in Returns (n2\<lparr> ws := Some (new_WebSocket env u hs) \<rparr>) [WsOpen u hs])"

definition Node_disconnect :: "Node \<Rightarrow> (Node, NodeEffect) outcome" where
  "Node_disconnect n =
     (if state n = NodeState_DISCONNECTED \<or> ws n = None then Returns n []
      else Returns n [WsClose 1000 ''Vulkava: disconnect''])"

text \<open>
  The truthiness of \<^verbatim>\<open>this.ws?.OPEN\<close>: the expression is \<^verbatim>\<open>undefined\<close> when there is no
  handle, else the handle's \<^verbatim>\<open>OPEN\<close> property; a number is truthy unless it is zero.
\<close>

definition ws_OPEN_truthy :: "Node \<Rightarrow> bool" where
  "ws_OPEN_truthy n = (case ws n of None \<Rightarrow> False | Some w \<Rightarrow> OPEN w \<noteq> 0)"

definition Node_send :: "Payload \<Rightarrow> Node \<Rightarrow> (Node, NodeEffect) outcome" where
  "Node_send payload n =
     (if state n \<noteq> NodeState_CONNECTED \<or> \<not> ws_OPEN_truthy n then Returns n []
      else Returns n [WsSend payload])"

definition setupResuming :: "Node \<Rightarrow> (Node, NodeEffect) outcome" where
  "setupResuming n =
     (case resumeKey (options n) of
        None \<Rightarrow> Returns n []
      | Some k \<Rightarrow>
          if \<not> truthy_string (Some k) then Returns n []
          else Node_send
                 (configureResuming k
                    (case resumeTimeout (options n) of Some t \<Rightarrow> t | None \<Rightarrow> 60)) n)"

definition Node_open :: "Node \<Rightarrow> (Node, NodeEffect) outcome" where
  "Node_open n =
     then_do
       (then_do (Returns (n\<lparr> state := NodeState_CONNECTED \<rparr>) [Emit nodeConnect])
          (\<lambda>n1. if resumed n1 \<noteq> Some True then setupResuming n1 else Returns n1 []))
       (\<lambda>n2. Returns (n2\<lparr> resumed := None \<rparr>) [])"

definition Node_message :: "Env \<Rightarrow> string \<Rightarrow> Node \<Rightarrow> (Node, NodeEffect) outcome" where
  "Node_message env data n =
     (case JSON_parse env data of
        None \<Rightarrow> Throws SyntaxError n []
      | Some payload \<Rightarrow> Returns n [Emit (raw payload)])"

definition Node_error :: "JsError \<Rightarrow> Node \<Rightarrow> (Node, NodeEffect) outcome" where
  "Node_error err n = Returns n [Emit (nodeError err)]"

record CloseEvent =
  code :: nat
  reason :: string
  wasClean :: bool

definition close_message :: "CloseEvent \<Rightarrow> string" where
  "close_message ev =
     ''WebSocket closed abnormally with code '' @ digits (code ev) @ '': '' @ reason ev"

definition Node_close :: "CloseEvent \<Rightarrow> Node \<Rightarrow> (Node, NodeEffect) outcome" where
  "Node_close ev n =
     (let n1 = n\<lparr> state := NodeState_DISCONNECTED \<rparr>;
          e1 = (if ws n1 \<noteq> None then [WsRemoveAllListeners] else []);
          n2 = n1\<lparr> ws := None \<rparr>
      in if wasClean ev then Returns n2 (e1 @ [Emit nodeDisconnect])
         else
           Returns n2
             (e1 @ [Emit (nodeError (Error (close_message ev)))]
              @ (if retryAttempts n2
                      < (case maxRetryAttempts (options n2) of Some m \<Rightarrow> m | None \<Rightarrow> 10)
                 then [SetTimeout
                         (case retryAttemptsInterval (options n2) of
                            Some i \<Rightarrow> i | None \<Rightarrow> 5000)]
                 else [])))"

definition Node_upgrade :: "(string \<times> string) list \<Rightarrow> Node \<Rightarrow> (Node, NodeEffect) outcome" where
  "Node_upgrade msg_headers n =
     (if map_of msg_headers ''session-resumed'' = Some ''true''
      then Returns (n\<lparr> resumed := Some True \<rparr>) [Emit nodeResume]
      else Returns n [])"

text \<open>
  The library's side of the handle: it moves the \<^verbatim>\<open>readyState\<close> of the Node's handle,
  to OPEN before it calls the open handler, to CLOSING when \<^verbatim>\<open>close\<close> has been called on
  the handle. No field of the Node itself changes.
\<close>

definition ws_becomes :: "nat \<Rightarrow> Node \<Rightarrow> Node" where
  "ws_becomes rs n = n\<lparr> ws := map_option (\<lambda>w. w\<lparr> readyState := rs \<rparr>) (ws n) \<rparr>"

text \<open>
  The calls a Node can receive: its three public methods, \<^verbatim>\<open>setupResuming\<close>, and the
  five handlers it binds to its WebSocket.
\<close>

datatype NodeOp =
    OpConnect
  | OpDisconnect
  | OpSend Payload
  | OpSetupResuming
  | OpOpen
  | OpMessage string
  | OpError JsError
  | OpClose CloseEvent
  | OpUpgrade "(string \<times> string) list"

fun Node_step :: "Env \<Rightarrow> NodeOp \<Rightarrow> Node \<Rightarrow> (Node, NodeEffect) outcome" where
  "Node_step env OpConnect n = Node_connect env n"
| "Node_step env OpDisconnect n = Node_disconnect n"
| "Node_step env (OpSend p) n = Node_send p n"
| "Node_step env OpSetupResuming n = setupResuming n"
| "Node_step env OpOpen n = Node_open n"
| "Node_step env (OpMessage data) n = Node_message env data n"
| "Node_step env (OpError err) n = Node_error err n"
| "Node_step env (OpClose ev) n = Node_close ev n"
| "Node_step env (OpUpgrade hs) n = Node_upgrade hs n"

text \<open>A history of calls on one Node, each applied to the object the last one left.\<close>

fun Node_run :: "Env \<Rightarrow> NodeOp list \<Rightarrow> Node \<Rightarrow> Node" where
  "Node_run env [] n = n"
| "Node_run env (op # ops) n = Node_run env ops (state_of (Node_step env op n))"

text \<open>What an effect list holds of each kind.\<close>

fun timers_of :: "NodeEffect list \<Rightarrow> int list" where
  "timers_of [] = []"
| "timers_of (SetTimeout ms # es) = ms # timers_of es"
| "timers_of (e # es) = timers_of es"

fun events_of :: "NodeEffect list \<Rightarrow> Event list" where
  "events_of [] = []"
| "events_of (Emit ev # es) = ev # events_of es"
| "events_of (e # es) = events_of es"

fun writes_of :: "NodeEffect list \<Rightarrow> Payload list" where
  "writes_of [] = []"
| "writes_of (WsSend p # es) = p # writes_of es"
| "writes_of (e # es) = writes_of es"

text \<open>
  One connection attempt that ends in a close: \<^verbatim>\<open>connect()\<close>, then the close handler
  with the event \<open>ev\<close>.
\<close>

definition failed_attempt :: "Env \<Rightarrow> CloseEvent \<Rightarrow> Node \<Rightarrow> (Node, NodeEffect) outcome" where
  "failed_attempt env ev n = Node_close ev (state_of (Node_connect env n))"

text \<open>
  The reconnect cycle when every attempt ends with the close event \<open>ev\<close>: an attempt is
  made, and while the close handler sets the timer, the timer fires and the next attempt
  is made. The result is the number of attempts, counted from \<open>k\<close>.
\<close>

function attempts_until_given_up :: "Env \<Rightarrow> CloseEvent \<Rightarrow> Node \<Rightarrow> nat \<Rightarrow> nat" where
  "attempts_until_given_up env ev n k =
     (if timers_of (effects_of (failed_attempt env ev n)) \<noteq> []
      then attempts_until_given_up env ev (state_of (failed_attempt env ev n)) (Suc k)
      else Suc k)"
  by pat_completeness auto

termination attempts_until_given_up
  by (relation "measure (\<lambda>(env, ev, n, k).
        2 * nat ((case maxRetryAttempts (options n) of Some m \<Rightarrow> m | None \<Rightarrow> 10)
                 - retryAttempts n)
        + (if state n = NodeState_DISCONNECTED then 0 else 1))")
     (auto simp: failed_attempt_def Node_close_def Node_connect_def Let_def
           split: if_splits option.splits)

declare attempts_until_given_up.simps [simp del]

text \<open>
  The Node after \<open>N\<close> connection attempts, each of which ended with the close event
  \<open>ev\<close>; no attempt has been made when \<open>N = 0\<close>.
\<close>

primrec after_attempts :: "Env \<Rightarrow> CloseEvent \<Rightarrow> NodeOptions \<Rightarrow> nat \<Rightarrow> Node" where
  "after_attempts env ev opts 0 = Node_new opts"
| "after_attempts env ev opts (Suc k) =
     state_of (failed_attempt env ev (after_attempts env ev opts k))"

text \<open>The configured maximum of the close handler, with its default.\<close>

definition max_attempts :: "Node \<Rightarrow> int" where
  "max_attempts n = (case maxRetryAttempts (options n) of Some m \<Rightarrow> m | None \<Rightarrow> 10)"

section \<open>Player.ts\<close>

datatype State = State_DISCONNECTED | State_CONNECTING | State_CONNECTED

record Track =
  encodedTrack :: string
  duration :: int

text \<open>
  \<^verbatim>\<open>PlayerOptions\<close>, \<^verbatim>\<open>PlayOptions\<close>, \<^verbatim>\<open>PlayerState\<close> and \<^verbatim>\<open>VoiceState\<close> are declared
  in the module \<^verbatim>\<open>./@types\<close>; the records hold the fields the class reads. The voice
  state is the list of its keys and values, empty for the \<^verbatim>\<open>{}\<close> of the constructor.
\<close>

record PlayerOptions =
  guildId :: string
  voiceChannelId :: string
  textChannelId :: "string option"
  selfDeaf :: "bool option"
  selfMute :: "bool option"

record PlayOptions =
  startTime :: "int option"
  endTime :: "int option"
  noReplace :: "bool option"

record PlayerState =
  position :: "int option"
  connected :: bool

text \<open>
  The owning \<^verbatim>\<open>Vulkava\<close> as the Player sees it: \<^verbatim>\<open>vulkava.nodes\<close> is the array of Node
  objects in configuration order, here the list of their references, and \<open>node_at\<close>
  gives the object behind a reference.
\<close>

text \<open>
  Modelled from the spec: \<open>players_at\<close>, the load statistic \<^verbatim>\<open>stats.players\<close> of each
  Node (its active-player count). The constructor of the Player reads it, while the Node
  class of \<^verbatim>\<open>Node.ts\<close> declares no \<^verbatim>\<open>stats\<close> field.
\<close>

record Vulkava =
  nodes :: "nat list"
  node_at :: "nat \<Rightarrow> Node"
  players_at :: "nat \<Rightarrow> int"

text \<open>The two requests to the voice gateway, both \<^verbatim>\<open>op: 4\<close>.\<close>

datatype Gateway =
    joinVoice string string bool bool
  | leaveVoice string

text \<open>
  What a Player does to the outside: what the \<^verbatim>\<open>send\<close> of a Node did, a request
  through \<^verbatim>\<open>vulkava.sendWS\<close>, and \<^verbatim>\<open>vulkava.players.delete\<close>.
\<close>

datatype Effect =
    OnNode nat NodeEffect
  | sendWS string Gateway
  | players_delete string

record Player =
  node :: "nat Ref"
  guildId :: string
  voiceChannelId :: string
  textChannelId :: "string option"
  selfDeaf :: bool
  selfMute :: bool
  current :: "Track Ref"
  queue :: "Track list"
  queueRepeat :: bool
  trackRepeat :: bool
  position :: int
  positionTimestamp :: int
  playing :: bool
  paused :: bool
  state :: State
  voiceState :: "(string \<times> string) list"
  moving :: "bool option"

text \<open>
  \<^verbatim>\<open>Array.prototype.sort\<close> with a comparator: the sort is stable, so an element goes in
  front of the first element it does not compare greater than.
\<close>

fun insert_by :: "('a \<Rightarrow> 'a \<Rightarrow> int) \<Rightarrow> 'a \<Rightarrow> 'a list \<Rightarrow> 'a list" where
  "insert_by cmp x [] = [x]"
| "insert_by cmp x (y # ys) =
     (if cmp x y \<le> 0 then x # y # ys else y # insert_by cmp x ys)"

definition Array_sort :: "('a \<Rightarrow> 'a \<Rightarrow> int) \<Rightarrow> 'a list \<Rightarrow> 'a list" where
  "Array_sort cmp xs = foldr (insert_by cmp) xs []"

text \<open>Element \<^verbatim>\<open>[0]\<close> of an array: \<^verbatim>\<open>undefined\<close> when the array is empty.\<close>

fun element0 :: "'a list \<Rightarrow> 'a Ref" where
  "element0 [] = Undefined"
| "element0 (x # xs) = Obj x"

definition select_node :: "Vulkava \<Rightarrow> nat Ref" where
  "select_node v =
     element0
       (Array_sort (\<lambda>a b. players_at v a - players_at v b)
          (filter (\<lambda>n. Node.state (node_at v n) = NodeState_CONNECTED) (nodes v)))"

definition Player_new :: "Vulkava \<Rightarrow> PlayerOptions \<Rightarrow> Player" where
  "Player_new v opts =
     \<lparr> node = select_node v,
       guildId = PlayerOptions.guildId opts,
       voiceChannelId = PlayerOptions.voiceChannelId opts,
       textChannelId = PlayerOptions.textChannelId opts,
       selfDeaf = (case PlayerOptions.selfDeaf opts of Some b \<Rightarrow> b | None \<Rightarrow> False),
       selfMute = (case PlayerOptions.selfMute opts of Some b \<Rightarrow> b | None \<Rightarrow> False),
       current = Null,
       queue = [],
       queueRepeat = False,
       trackRepeat = False,
       position = 0,
       positionTimestamp = 0,
       playing = False,
       paused = False,
       state = State_DISCONNECTED,
       voiceState = [],
       moving = None \<rparr>"

text \<open>The getter, with the reading of \<^verbatim>\<open>Date.now()\<close> as its argument.\<close>

definition exactPosition :: "int \<Rightarrow> Player \<Rightarrow> int" where
  "exactPosition now p = position p + (now - positionTimestamp p)"

text \<open>
  \<^verbatim>\<open>this.node.send(payload)\<close>: reading \<^verbatim>\<open>send\<close> from a missing node raises; otherwise the
  Node's \<^verbatim>\<open>send\<close> runs on the object the reference points to.
\<close>

definition node_send :: "Vulkava \<Rightarrow> Payload \<Rightarrow> Player \<Rightarrow> (Player, Effect) outcome" where
  "node_send v payload p =
     (case node p of
        Obj a \<Rightarrow> Returns p (map (OnNode a) (effects_of (Node_send payload (node_at v a))))
      | Undefined \<Rightarrow> Throws (TypeError_reading ''send'') p []
      | Null \<Rightarrow> Throws (TypeError_reading ''send'') p [])"

definition Player_connect :: "Player \<Rightarrow> (Player, Effect) outcome" where
  "Player_connect p =
     (if state p = State_CONNECTED then Returns p []
      else if node p = Null then Throws (Error ''No available nodes!'') p []
      else if voiceChannelId p = [] then Throws (Error ''No voice channel id provided'') p []
      else Returns (p\<lparr> state := State_CONNECTING \<rparr>)
             [sendWS (guildId p)
                (joinVoice (guildId p) (voiceChannelId p) (selfMute p) (selfDeaf p))])"

definition Player_disconnect :: "Player \<Rightarrow> (Player, Effect) outcome" where
  "Player_disconnect p =
     (if state p = State_DISCONNECTED then Returns p []
      else Returns (p\<lparr> state := State_DISCONNECTED \<rparr>)
             [sendWS (guildId p) (leaveVoice (guildId p))])"

definition Player_destroy :: "Vulkava \<Rightarrow> Player \<Rightarrow> (Player, Effect) outcome" where
  "Player_destroy v p =
     then_do (Player_disconnect p) (\<lambda>p1.
     then_do (node_send v (destroy (guildId p1)) p1) (\<lambda>p2.
     Returns p2 [players_delete (guildId p2)]))"

definition sendVoiceUpdate :: "Vulkava \<Rightarrow> Player \<Rightarrow> (Player, Effect) outcome" where
  "sendVoiceUpdate v p = node_send v (voiceUpdate (guildId p) (voiceState p)) p"

definition Player_moveNode :: "Vulkava \<Rightarrow> nat Ref \<Rightarrow> Player \<Rightarrow> (Player, Effect) outcome" where
  "Player_moveNode v target p =
     (case target of
        Undefined \<Rightarrow> Throws (TypeError ''You must provide a Node instance.'') p []
      | Null \<Rightarrow> Throws (TypeError ''You must provide a Node instance.'') p []
      | Obj a \<Rightarrow>
          if Node.state (node_at v a) \<noteq> NodeState_CONNECTED
          then Throws (Error ''The provided node is not connected.'') p []
          else if node p = Obj a then Returns p []
          else
            then_do (Returns (p\<lparr> moving := Some True \<rparr>) []) (\<lambda>p1.
            then_do (node_send v (destroy (guildId p1)) p1) (\<lambda>p2.
            then_do (Returns (p2\<lparr> node := Obj a \<rparr>) []) (\<lambda>p3.
            then_do
              (if voiceState p3 \<noteq> []
               then then_do (sendVoiceUpdate v (p3\<lparr> state := State_CONNECTING \<rparr>))
                      (\<lambda>p4. Returns (p4\<lparr> state := State_CONNECTED \<rparr>) [])
               else Returns p3 []) (\<lambda>p5.
            if playing p5
            then
              (case current p5 of
                 Obj t \<Rightarrow>
                   node_send v
                     (play (guildId p5) (encodedTrack t) (Some (position p5)) None None) p5
               | Undefined \<Rightarrow> Returns (p5\<lparr> moving := Some False \<rparr>) []
               | Null \<Rightarrow> Returns (p5\<lparr> moving := Some False \<rparr>) [])
            else Returns (p5\<lparr> moving := Some False \<rparr>) [])))))"

text \<open>\<^verbatim>\<open>this.current = this.queue.shift()\<close>: \<^verbatim>\<open>undefined\<close> from an empty queue.\<close>

definition shift_into_current :: "Player \<Rightarrow> Player" where
  "shift_into_current p =
     (case queue p of
        [] \<Rightarrow> p\<lparr> current := Undefined \<rparr>
      | t # ts \<Rightarrow> p\<lparr> queue := ts, current := Obj t \<rparr>)"

text \<open>
  The object of the play command: the fixed fields, then the caller's options spread over
  them (nothing when \<^verbatim>\<open>options\<close> is missing).
\<close>

definition play_payload :: "PlayOptions option \<Rightarrow> Player \<Rightarrow> Track \<Rightarrow> Payload" where
  "play_payload opts p t =
     play (guildId p) (encodedTrack t)
       (case opts of Some os \<Rightarrow> startTime os | None \<Rightarrow> None)
       (case opts of Some os \<Rightarrow> endTime os | None \<Rightarrow> None)
       (case opts of Some os \<Rightarrow> noReplace os | None \<Rightarrow> None)"

definition Player_play :: "Vulkava \<Rightarrow> PlayOptions option \<Rightarrow> Player \<Rightarrow> (Player, Effect) outcome" where
  "Player_play v opts p =
     (if node p = Null then Throws (Error ''No available nodes!'') p []
      else if \<not> truthy_ref (current p) \<and> \<not> trackRepeat p \<and> queue p = []
      then Throws (Error ''The queue is empty!'') p []
      else
        let p1 = (if \<not> truthy_ref (current p) then shift_into_current p
                  else if \<not> trackRepeat p then shift_into_current p
                  else p)
        in if \<not> truthy_ref (node p1) then Throws (TypeError_reading ''send'') p1 []
           else
             (case current p1 of
                Obj t \<Rightarrow>
                  node_send v (play_payload opts p1 t) p1
              | Undefined \<Rightarrow> Throws (TypeError_reading ''encodedTrack'') p1 []
              | Null \<Rightarrow> Throws (TypeError_reading ''encodedTrack'') p1 []))"

definition setTrackLoop :: "bool \<Rightarrow> Player \<Rightarrow> (Player, Effect) outcome" where
  "setTrackLoop b p = Returns (p\<lparr> trackRepeat := b \<rparr>) []"

definition setQueueLoop :: "bool \<Rightarrow> Player \<Rightarrow> (Player, Effect) outcome" where
  "setQueueLoop b p = Returns (p\<lparr> queueRepeat := b \<rparr>) []"

text \<open>
  \<^verbatim>\<open>skip(amount = 1)\<close>: the default stands in for a missing argument;
  \<^verbatim>\<open>splice(0, amount)\<close> removes nothing when \<^verbatim>\<open>amount\<close> is negative.
\<close>

definition Player_skip :: "Vulkava \<Rightarrow> int option \<Rightarrow> Player \<Rightarrow> (Player, Effect) outcome" where
  "Player_skip v amount p =
     (let amt = (case amount of Some a \<Rightarrow> a | None \<Rightarrow> 1)
      in if \<not> playing p then Returns p []
         else
           node_send v (stop (guildId p))
             (if amt \<ge> int (length (queue p)) then p\<lparr> queue := [] \<rparr>
              else p\<lparr> queue := drop (nat amt) (queue p) \<rparr>))"

definition Player_pause :: "Vulkava \<Rightarrow> JsValue \<Rightarrow> Player \<Rightarrow> (Player, Effect) outcome" where
  "Player_pause v arg p =
     (case (if arg = JsUndefined then JsBool True else arg) of
        JsBool b \<Rightarrow> node_send v (pause (guildId p) b) (p\<lparr> paused := b \<rparr>)
      | JsUndefined \<Rightarrow> Throws (TypeError ''State must be a boolean'') p []
      | JsNumber x \<Rightarrow> Throws (TypeError ''State must be a boolean'') p []
      | JsString x \<Rightarrow> Throws (TypeError ''State must be a boolean'') p [])"

definition Player_seek :: "Vulkava \<Rightarrow> JsValue \<Rightarrow> Player \<Rightarrow> (Player, Effect) outcome" where
  "Player_seek v arg p =
     (if \<not> playing p then Returns p []
      else
        (case current p of
           Undefined \<Rightarrow> Returns p []
         | Null \<Rightarrow> Returns p []
         | Obj t \<Rightarrow>
             (case arg of
                JsNumber pos \<Rightarrow>
                  if pos > duration t then Player_skip v None p
                  else node_send v (seek (guildId p) pos) p
              | JsUndefined \<Rightarrow> Throws (TypeError ''Position must be a number'') p []
              | JsBool x \<Rightarrow> Throws (TypeError ''Position must be a number'') p []
              | JsString x \<Rightarrow> Throws (TypeError ''Position must be a number'') p [])))"

text \<open>\<^verbatim>\<open>if (state.position)\<close>: a position that is missing or zero is falsy.\<close>

definition updatePlayer :: "PlayerState \<Rightarrow> Player \<Rightarrow> (Player, Effect) outcome" where
  "updatePlayer report p =
     (let p1 = (case PlayerState.position report of
                  Some x \<Rightarrow> if x \<noteq> 0 then p\<lparr> position := x \<rparr> else p
                | None \<Rightarrow> p)
      in if connected report
         then (if state p1 \<noteq> State_CONNECTED
               then Returns (p1\<lparr> state := State_CONNECTED \<rparr>) [] else Returns p1 [])
         else if state p1 \<noteq> State_DISCONNECTED
         then Returns (p1\<lparr> state := State_DISCONNECTED \<rparr>) []
         else Returns p1 [])"

text \<open>
  The calls a Player can receive. \<^verbatim>\<open>ping\<close> is left out: it only hands over to
  \<^verbatim>\<open>Node.ping\<close>, which the Node class of \<^verbatim>\<open>Node.ts\<close> does not define.
\<close>

datatype PlayerOp =
    Connect
  | Disconnect
  | Destroy
  | MoveNode "nat Ref"
  | Play "PlayOptions option"
  | SetTrackLoop bool
  | SetQueueLoop bool
  | Skip "int option"
  | Pause JsValue
  | Seek JsValue
  | SendVoiceUpdate
  | UpdatePlayer PlayerState

fun Player_step :: "Vulkava \<Rightarrow> PlayerOp \<Rightarrow> Player \<Rightarrow> (Player, Effect) outcome" where
  "Player_step v Connect p = Player_connect p"
| "Player_step v Disconnect p = Player_disconnect p"
| "Player_step v Destroy p = Player_destroy v p"
| "Player_step v (MoveNode target) p = Player_moveNode v target p"
| "Player_step v (Play opts) p = Player_play v opts p"
| "Player_step v (SetTrackLoop b) p = setTrackLoop b p"
| "Player_step v (SetQueueLoop b) p = setQueueLoop b p"
| "Player_step v (Skip amount) p = Player_skip v amount p"
| "Player_step v (Pause arg) p = Player_pause v arg p"
| "Player_step v (Seek arg) p = Player_seek v arg p"
| "Player_step v SendVoiceUpdate p = sendVoiceUpdate v p"
| "Player_step v (UpdatePlayer report) p = updatePlayer report p"

section \<open>Objects used in the examples\<close>

definition example_options :: NodeOptions where
  "example_options =
     \<lparr> id' = None, hostname = ''localhost'', port = 2333, secure = None,
       password = ''youshallnotpass'', resumeKey = None, resumeTimeout = None,
       maxRetryAttempts = None, retryAttemptsInterval = None \<rparr>"

definition example_env :: Env where
  "example_env =
     \<lparr> clientId = ''42'', VERSION = ''1.0.0'',
       new_WebSocket = (\<lambda>u hs. \<lparr> url = u, headers = hs, readyState = 0 \<rparr>),
       JSON_parse = (\<lambda>s. Some (Json s)) \<rparr>"

definition abnormal_close :: CloseEvent where
  "abnormal_close = \<lparr> code = 1006, reason = ''gone'', wasClean = False \<rparr>"

text \<open>
  A Node after \<^verbatim>\<open>connect()\<close>; the same Node after its transport has opened; and that
  Node after \<^verbatim>\<open>disconnect()\<close>, while the transport is closing and the close event has
  not arrived yet.
\<close>

definition connecting_node :: Node where
  "connecting_node = state_of (Node_connect example_env (Node_new example_options))"

definition connected_node :: Node where
  "connected_node = state_of (Node_open (ws_becomes 1 connecting_node))"

definition closing_node :: Node where
  "closing_node = ws_becomes 2 (state_of (Node_disconnect connected_node))"

definition example_player_options :: PlayerOptions where
  "example_player_options =
     \<lparr> PlayerOptions.guildId = ''g'', PlayerOptions.voiceChannelId = ''vc'',
       PlayerOptions.textChannelId = None, PlayerOptions.selfDeaf = None,
       PlayerOptions.selfMute = None \<rparr>"

text \<open>
  Three configured Nodes with loads 5, 2 and 8, of which the first and the third are
  connected; two Nodes of which none is connected; two connected Nodes of equal load.
\<close>

definition three_nodes :: Vulkava where
  "three_nodes =
     \<lparr> nodes = [0, 1, 2],
       node_at = (\<lambda>a. if a = 1 then Node_new example_options else connected_node),
       players_at = (\<lambda>a. if a = 0 then 5 else if a = 1 then 2 else 8) \<rparr>"

definition none_connected :: Vulkava where
  "none_connected =
     \<lparr> nodes = [0, 1],
       node_at = (\<lambda>a. Node_new example_options),
       players_at = (\<lambda>a. 0) \<rparr>"

definition two_connected :: Vulkava where
  "two_connected =
     \<lparr> nodes = [0, 1], node_at = (\<lambda>a. connected_node), players_at = (\<lambda>a. 0) \<rparr>"

definition track_A :: Track where
  "track_A = \<lparr> encodedTrack = ''QAAA'', duration = 180000 \<rparr>"

definition track_B :: Track where
  "track_B = \<lparr> encodedTrack = ''QAAB'', duration = 240000 \<rparr>"

definition fresh_player :: Player where
  "fresh_player = Player_new two_connected example_player_options"

text \<open>A Player created while no Node was connected.\<close>

definition nodeless_player :: Player where
  "nodeless_player = Player_new none_connected example_player_options"

text \<open>
  A Player that has called \<^verbatim>\<open>connect()\<close> and received its voice credentials, and the same
  Player later, connected and playing a track.
\<close>

definition connecting_player :: Player where
  "connecting_player =
     (state_of (Player_connect fresh_player))\<lparr> voiceState := [(''sessionId'', ''s1'')] \<rparr>"

definition playing_player :: Player where
  "playing_player =
     connecting_player\<lparr> current := Obj track_A, position := 1234, playing := True,
                         state := State_CONNECTED \<rparr>"

section \<open>The Node: close handler, send, retry counter\<close>

lemma digits_1006: "digits 1006 = ''1006''"
  by code_simp

lemma connecting_node_simps:
  "Node.state connecting_node = NodeState_CONNECTING"
  "retryAttempts connecting_node = 0"
  "options connecting_node = example_options"
  "ws connecting_node \<noteq> None"
  by (simp_all add: connecting_node_def Node_connect_def Node_new_def Let_def)

lemma connected_node_simps:
  "Node.state connected_node = NodeState_CONNECTED"
  "retryAttempts connected_node = 0"
  "options connected_node = example_options"
  "ws_OPEN_truthy connected_node"
  "map_option readyState (ws connected_node) = Some 1"
  by (simp_all add: connected_node_def connecting_node_def Node_open_def setupResuming_def
        Node_connect_def Node_new_def Let_def example_options_def example_env_def
        ws_OPEN_truthy_def ws_becomes_def OPEN_def)

lemma closing_node_simps:
  "Node.state closing_node = NodeState_CONNECTED"
  "map_option readyState (ws closing_node) = Some 2"
  "ws_OPEN_truthy closing_node"
  using connected_node_simps(1,5)
  by (auto simp: closing_node_def Node_disconnect_def ws_becomes_def ws_OPEN_truthy_def
        OPEN_def split: option.splits)

text \<open>
  C3. The close handler always returns with the state DISCONNECTED and the transport
  handle discarded. After a clean close it emits the disconnect notification and sets no
  timer. After an unclean close it emits a node-error notification whose message gives
  the close code and reason, and it sets the reconnect timer, with the configured retry
  interval (5000 ms by default), exactly when the retry counter is below the configured
  maximum (10 by default).
\<close>

theorem close_handler:
  "returned (Node_close ev n)
   \<and> Node.state (state_of (Node_close ev n)) = NodeState_DISCONNECTED
   \<and> ws (state_of (Node_close ev n)) = None
   \<and> events_of (effects_of (Node_close ev n))
       = [if wasClean ev then nodeDisconnect
          else nodeError
                 (Error (''WebSocket closed abnormally with code '' @ digits (code ev)
                           @ '': '' @ reason ev))]
   \<and> timers_of (effects_of (Node_close ev n))
       = (if \<not> wasClean ev
             \<and> retryAttempts n
                 < (case maxRetryAttempts (options n) of Some m \<Rightarrow> m | None \<Rightarrow> 10)
          then [case retryAttemptsInterval (options n) of Some i \<Rightarrow> i | None \<Rightarrow> 5000]
          else [])"
  by (simp add: Node_close_def Let_def close_message_def)

theorem close_handler_witness:
  "timers_of (effects_of (Node_close abnormal_close connecting_node)) = [5000]
   \<and> events_of (effects_of (Node_close abnormal_close connecting_node))
       = [nodeError (Error ''WebSocket closed abnormally with code 1006: gone'')]
   \<and> timers_of (effects_of (Node_close (abnormal_close\<lparr> wasClean := True \<rparr>) connecting_node))
       = []
   \<and> events_of (effects_of (Node_close (abnormal_close\<lparr> wasClean := True \<rparr>) connecting_node))
       = [nodeDisconnect]"
  using close_handler [of abnormal_close connecting_node]
    close_handler [of "abnormal_close\<lparr> wasClean := True \<rparr>" connecting_node]
  by (simp add: abnormal_close_def connecting_node_simps example_options_def digits_1006)

lemma Node_send_writes:
  "Node_send payload n
     = (if Node.state n = NodeState_CONNECTED \<and> ws n \<noteq> None
        then Returns n [WsSend payload] else Returns n [])"
  by (simp add: Node_send_def ws_OPEN_truthy_def OPEN_def split: option.splits)

text \<open>
  C5. \<^verbatim>\<open>send(payload)\<close> is to write to the transport if and only if the state is
  CONNECTED and the transport reports itself open, and to drop the payload silently in
  every other case, also when the state is CONNECTED and the transport is not open. The
  guard of the code reads the handle's \<^verbatim>\<open>OPEN\<close> property, which is the same on every
  handle, so it only tests that there is a handle. On a Node that is still CONNECTED
  while its transport is closing (after \<^verbatim>\<open>disconnect()\<close>, before the close event) the
  payload is not dropped: it is handed to \<^verbatim>\<open>ws.send\<close>.
\<close>

theorem send_on_closing_transport:
  "Node.state closing_node = NodeState_CONNECTED
   \<and> map_option readyState (ws closing_node) = Some 2
   \<and> Node_send (stop ''g'') closing_node = Returns closing_node [WsSend (stop ''g'')]"
  by (simp add: closing_node_simps Node_send_def)

theorem send_on_closing_transport_witness:
  "writes_of (effects_of (Node_send (stop ''g'') closing_node)) = [stop ''g'']"
  using send_on_closing_transport by simp

lemma retryAttempts_step:
  "retryAttempts (state_of (Node_step env op n))
     = (if op = OpConnect \<and> Node.state n = NodeState_DISCONNECTED
        then retryAttempts n + 1 else retryAttempts n)"
  by (cases op)
     (auto simp: Node_connect_def Node_disconnect_def Node_send_def setupResuming_def
        Node_open_def Node_message_def Node_error_def Node_close_def Node_upgrade_def Let_def
        split: option.splits)

lemma retryAttempts_run: "retryAttempts n \<le> retryAttempts (Node_run env ops n)"
proof (induction ops arbitrary: n)
  case Nil
  show ?case by simp
next
  case (Cons op ops)
  have "retryAttempts n \<le> retryAttempts (state_of (Node_step env op n))"
    by (simp add: retryAttempts_step)
  also have "\<dots> \<le> retryAttempts (Node_run env ops (state_of (Node_step env op n)))"
    by (rule Cons.IH)
  finally show ?case by simp
qed

text \<open>
  C7, as the code has it. A \<^verbatim>\<open>connect()\<close> call made while the state is DISCONNECTED
  increases \<^verbatim>\<open>retryAttempts\<close> by exactly one; a \<^verbatim>\<open>connect()\<close> call in any other state is
  a no-op: it returns the Node as it was, counter included, and does nothing to the
  outside. No other method or handler of the Node changes the counter, so over any
  history of calls it never decreases and is never reset.
\<close>

theorem retryAttempts_only_connect:
  "retryAttempts (state_of (Node_step env op n))
     = (if op = OpConnect \<and> Node.state n = NodeState_DISCONNECTED
        then retryAttempts n + 1 else retryAttempts n)
   \<and> (Node.state n = NodeState_DISCONNECTED \<longrightarrow>
        retryAttempts (state_of (Node_connect env n)) = retryAttempts n + 1)
   \<and> (Node.state n \<noteq> NodeState_DISCONNECTED \<longrightarrow> Node_connect env n = Returns n [])
   \<and> retryAttempts n \<le> retryAttempts (Node_run env ops n)"
  by (simp add: retryAttempts_step retryAttempts_run Node_connect_def Let_def)

theorem retryAttempts_only_connect_witness:
  "retryAttempts (state_of (Node_step example_env OpConnect (Node_new example_options))) = 0
   \<and> retryAttempts (state_of (Node_connect example_env (Node_new example_options))) = 0
   \<and> Node_connect example_env connected_node = Returns connected_node []
   \<and> retryAttempts (state_of (Node_step example_env (OpClose abnormal_close) connected_node)) = 0
   \<and> 0 \<le> retryAttempts
            (Node_run example_env [OpClose abnormal_close, OpConnect, OpOpen] connected_node)"
  using retryAttempts_only_connect
          [of example_env OpConnect "Node_new example_options" "[]"]
    retryAttempts_only_connect
          [of example_env "OpClose abnormal_close" connected_node
              "[OpClose abnormal_close, OpConnect, OpOpen]"]
  by (simp add: Node_new_def connected_node_simps)

text \<open>
  Not every \<^verbatim>\<open>connect()\<close> call increases the counter: on a Node that is already
  connecting, the second of two \<^verbatim>\<open>connect()\<close> calls in a row leaves it at 0.
\<close>

theorem connect_while_connecting_counterexample:
  "retryAttempts (state_of (Node_connect example_env connecting_node)) = 0
   \<and> retryAttempts (state_of (Node_connect example_env connecting_node))
       \<noteq> retryAttempts connecting_node + 1"
  by (simp add: Node_connect_def connecting_node_simps)

lemma failed_attempt_facts:
  "Node.state (state_of (failed_attempt env ev n)) = NodeState_DISCONNECTED"
  "retryAttempts (state_of (failed_attempt env ev n)) =
     (if Node.state n = NodeState_DISCONNECTED then retryAttempts n + 1 else retryAttempts n)"
  "max_attempts (state_of (failed_attempt env ev n)) = max_attempts n"
  "timers_of (effects_of (failed_attempt env ev n)) \<noteq> [] \<longleftrightarrow>
     \<not> wasClean ev \<and>
     (if Node.state n = NodeState_DISCONNECTED then retryAttempts n + 1 else retryAttempts n)
       < max_attempts n"
  by (simp_all add: failed_attempt_def Node_close_def Node_connect_def Let_def max_attempts_def)

lemma after_attempts_facts:
  "Node.state (after_attempts env ev opts N) = NodeState_DISCONNECTED
   \<and> retryAttempts (after_attempts env ev opts N) = int N - 1
   \<and> max_attempts (after_attempts env ev opts N) = max_attempts (Node_new opts)"
  by (induction N) (simp_all add: failed_attempt_facts, simp add: Node_new_def)

lemma attempts_count:
  "Node.state n = NodeState_DISCONNECTED \<Longrightarrow> \<not> wasClean ev \<Longrightarrow>
   attempts_until_given_up env ev n k
     = k + max 1 (nat (max_attempts n - retryAttempts n))"
proof (induction env ev n k rule: attempts_until_given_up.induct)
  case (1 env ev n k)
  show ?case
  proof (cases "timers_of (effects_of (failed_attempt env ev n)) \<noteq> []")
    case True
    then have lt: "retryAttempts n + 1 < max_attempts n"
      using "1.prems" by (simp add: failed_attempt_facts)
    have "attempts_until_given_up env ev n k
            = attempts_until_given_up env ev (state_of (failed_attempt env ev n)) (Suc k)"
      using True by (subst attempts_until_given_up.simps) simp
    also have "\<dots> = Suc k + max 1 (nat (max_attempts n - (retryAttempts n + 1)))"
      using "1.IH" [OF True] "1.prems" by (simp add: failed_attempt_facts)
    also have "\<dots> = k + max 1 (nat (max_attempts n - retryAttempts n))"
      using lt by simp
    finally show ?thesis .
  next
    case False
    then have ge: "\<not> retryAttempts n + 1 < max_attempts n"
      using "1.prems" by (simp add: failed_attempt_facts)
    have "attempts_until_given_up env ev n k = Suc k"
      using False by (subst attempts_until_given_up.simps) simp
    then show ?thesis using ge by simp
  qed
qed

text \<open>
  C9. A new Node has \<^verbatim>\<open>retryAttempts = -1\<close>, and after its \<open>N\<close>-th connection attempt
  the counter is \<open>N - 1\<close>. So the close handler, after an unclean close of attempt number
  \<open>N + 1\<close>, still sets the reconnect timer exactly when \<open>N + 1\<close> is at most the configured
  maximum: also after the attempt whose number is the maximum itself. When every attempt
  ends in an unclean close and the maximum is not negative, the reconnect cycle makes
  maximum + 1 attempts in all.
\<close>

theorem retry_counter_starts_below_zero:
  "retryAttempts (Node_new opts) = - 1
   \<and> retryAttempts (after_attempts env ev opts N) = int N - 1
   \<and> (\<not> wasClean ev \<longrightarrow>
        (timers_of (effects_of (failed_attempt env ev (after_attempts env ev opts N))) \<noteq> []
           \<longleftrightarrow> int (Suc N) \<le> max_attempts (Node_new opts)))
   \<and> (\<not> wasClean ev \<and> 0 \<le> max_attempts (Node_new opts) \<longrightarrow>
        attempts_until_given_up env ev (Node_new opts) 0
          = nat (max_attempts (Node_new opts)) + 1)"
proof (intro conjI impI)
  show "retryAttempts (Node_new opts) = - 1" by (simp add: Node_new_def)
  show "retryAttempts (after_attempts env ev opts N) = int N - 1"
    by (simp add: after_attempts_facts)
next
  assume "\<not> wasClean ev"
  then show "timers_of (effects_of (failed_attempt env ev (after_attempts env ev opts N))) \<noteq> []
      \<longleftrightarrow> int (Suc N) \<le> max_attempts (Node_new opts)"
    by (auto simp: failed_attempt_facts after_attempts_facts)
next
  assume a: "\<not> wasClean ev \<and> 0 \<le> max_attempts (Node_new opts)"
  have "attempts_until_given_up env ev (Node_new opts) 0
          = 0 + max 1 (nat (max_attempts (Node_new opts) - retryAttempts (Node_new opts)))"
    using a by (intro attempts_count) (simp_all add: Node_new_def)
  then show "attempts_until_given_up env ev (Node_new opts) 0
          = nat (max_attempts (Node_new opts)) + 1"
    using a by (simp add: Node_new_def)
qed

theorem retry_counter_starts_below_zero_witness:
  "\<not> wasClean abnormal_close
   \<and> max_attempts (Node_new example_options) = 10
   \<and> retryAttempts (after_attempts example_env abnormal_close example_options 10) = 9
   \<and> timers_of (effects_of (failed_attempt example_env abnormal_close
        (after_attempts example_env abnormal_close example_options 9))) \<noteq> []
   \<and> timers_of (effects_of (failed_attempt example_env abnormal_close
        (after_attempts example_env abnormal_close example_options 10))) = []
   \<and> attempts_until_given_up example_env abnormal_close (Node_new example_options) 0 = 11"
  using retry_counter_starts_below_zero [of example_options example_env abnormal_close 10]
    retry_counter_starts_below_zero [of example_options example_env abnormal_close 9]
  by (simp add: abnormal_close_def max_attempts_def Node_new_def example_options_def)

section \<open>The Player: node selection\<close>

lemma Array_sort_Nil_iff: "Array_sort cmp xs = [] \<longleftrightarrow> xs = []"
proof (cases xs)
  case Nil
  then show ?thesis by (simp add: Array_sort_def)
next
  case (Cons y ys)
  have "insert_by cmp y zs \<noteq> []" for zs by (cases zs) simp_all
  then show ?thesis using Cons by (simp add: Array_sort_def)
qed

lemma Array_sort_head:
  "Array_sort (\<lambda>a b. k a - k b) ys = a # rest \<Longrightarrow>
   \<exists>pre post. ys = pre @ a # post \<and> (\<forall>b\<in>set pre. k a < k b) \<and> (\<forall>b\<in>set post. k a \<le> k b)"
proof (induction ys arbitrary: a rest)
  case Nil
  then show ?case by (simp add: Array_sort_def)
next
  case (Cons y ys)
  let ?cmp = "\<lambda>a b. k a - (k b :: int)"
  have step: "Array_sort ?cmp (y # ys) = insert_by ?cmp y (Array_sort ?cmp ys)"
    by (simp add: Array_sort_def)
  show ?case
  proof (cases "Array_sort ?cmp ys")
    case Nil
    then have "ys = []" by (simp add: Array_sort_Nil_iff)
    moreover have "a = y" using Cons.prems step Nil by simp
    ultimately show ?thesis by (intro exI [of _ "[]"]) simp
  next
    case (Cons a' rest')
    from Cons.IH [OF Cons] obtain pre post where
      ys: "ys = pre @ a' # post" and pre: "\<forall>b\<in>set pre. k a' < k b"
      and post: "\<forall>b\<in>set post. k a' \<le> k b"
      by blast
    show ?thesis
    proof (cases "k y \<le> k a'")
      case True
      then have "a = y" using Cons.prems step Cons by simp
      moreover have "k y \<le> k b" if "b \<in> set ys" for b
      proof -
        have "b \<in> set pre \<or> b = a' \<or> b \<in> set post" using that ys by auto
        then have "k a' \<le> k b" using pre post by fastforce
        then show ?thesis using True by simp
      qed
      ultimately show ?thesis by (intro exI [of _ "[]"] exI [of _ ys]) simp
    next
      case False
      then have "a = a'" using Cons.prems step Cons by simp
      then show ?thesis
        using False ys pre post
        by (intro exI [of _ "y # pre"] exI [of _ post]) simp
    qed
  qed
qed

lemma filter_eq_split:
  "filter P xs = pre @ a # post \<Longrightarrow>
   \<exists>us vs. xs = us @ a # vs \<and> filter P us = pre \<and> filter P vs = post \<and> P a"
proof (induction xs arbitrary: pre)
  case Nil
  then show ?case by simp
next
  case (Cons x xs)
  show ?case
  proof (cases "P x")
    case False
    then have "filter P xs = pre @ a # post" using Cons.prems by simp
    from Cons.IH [OF this] obtain us vs where
      "xs = us @ a # vs" "filter P us = pre" "filter P vs = post" "P a" by blast
    then show ?thesis using False by (intro exI [of _ "x # us"] exI [of _ vs]) simp
  next
    case True
    then have eq: "x # filter P xs = pre @ a # post" using Cons.prems by simp
    show ?thesis
    proof (cases pre)
      case Nil
      then have "x = a" "filter P xs = post" using eq by simp_all
      then show ?thesis using True Nil by (intro exI [of _ "[]"] exI [of _ xs]) simp
    next
      case (Cons q pre')
      then have "x = q" "filter P xs = pre' @ a # post" using eq by simp_all
      from Cons.IH [OF this(2)] obtain us vs where
        "xs = us @ a # vs" "filter P us = pre'" "filter P vs = post" "P a" by blast
      then show ?thesis
        using True Cons \<open>x = q\<close> by (intro exI [of _ "x # us"] exI [of _ vs]) simp
    qed
  qed
qed

lemma select_node_cases:
  "select_node v = Undefined \<longleftrightarrow>
     filter (\<lambda>n. Node.state (node_at v n) = NodeState_CONNECTED) (nodes v) = []"
  "select_node v \<noteq> Null"
proof -
  let ?sorted = "Array_sort (\<lambda>a b. players_at v a - players_at v b)
                   (filter (\<lambda>n. Node.state (node_at v n) = NodeState_CONNECTED) (nodes v))"
  have sel: "select_node v = element0 ?sorted" by (simp add: select_node_def)
  have nil: "?sorted = [] \<longleftrightarrow>
      filter (\<lambda>n. Node.state (node_at v n) = NodeState_CONNECTED) (nodes v) = []"
    by (rule Array_sort_Nil_iff)
  show "select_node v = Undefined \<longleftrightarrow>
     filter (\<lambda>n. Node.state (node_at v n) = NodeState_CONNECTED) (nodes v) = []"
    unfolding sel nil [symmetric] by (cases ?sorted) simp_all
  show "select_node v \<noteq> Null"
    unfolding sel by (cases ?sorted) simp_all
qed

lemma select_node_Obj:
  assumes "select_node v = Obj a"
  shows "Node.state (node_at v a) = NodeState_CONNECTED
    \<and> (\<exists>pre post. nodes v = pre @ a # post
          \<and> (\<forall>b\<in>set pre. Node.state (node_at v b) = NodeState_CONNECTED
                 \<longrightarrow> players_at v a < players_at v b)
          \<and> (\<forall>b\<in>set post. Node.state (node_at v b) = NodeState_CONNECTED
                 \<longrightarrow> players_at v a \<le> players_at v b))"
proof -
  let ?P = "\<lambda>n. Node.state (node_at v n) = NodeState_CONNECTED"
  let ?k = "players_at v"
  obtain rest where "Array_sort (\<lambda>a b. ?k a - ?k b) (filter ?P (nodes v)) = a # rest"
    using assms
    by (cases "Array_sort (\<lambda>a b. ?k a - ?k b) (filter ?P (nodes v))")
       (simp_all add: select_node_def)
  from Array_sort_head [OF this] obtain pre post where
    f: "filter ?P (nodes v) = pre @ a # post" and pre: "\<forall>b\<in>set pre. ?k a < ?k b"
    and post: "\<forall>b\<in>set post. ?k a \<le> ?k b"
    by blast
  from filter_eq_split [OF f] obtain us vs where
    n: "nodes v = us @ a # vs" and us: "filter ?P us = pre" and vs: "filter ?P vs = post"
    and a: "?P a"
    by blast
  have "set pre = {b \<in> set us. ?P b}" "set post = {b \<in> set vs. ?P b}"
    using us vs by (simp_all flip: set_filter)
  then have "\<forall>b\<in>set us. ?P b \<longrightarrow> ?k a < ?k b"
    and "\<forall>b\<in>set vs. ?P b \<longrightarrow> ?k a \<le> ?k b"
    using pre post by simp_all
  then show ?thesis using a n by blast
qed


lemma three_nodes_select: "select_node three_nodes = Obj 0"
  by (simp add: select_node_def Array_sort_def three_nodes_def connected_node_simps Node_new_def)

lemma two_connected_select: "select_node two_connected = Obj 0"
  by (simp add: select_node_def Array_sort_def two_connected_def connected_node_simps)

lemma none_connected_select: "select_node none_connected = Undefined"
  by (simp add: select_node_def Array_sort_def none_connected_def Node_new_def)

text \<open>
  C1, as the code has it. The Node assigned at the creation of a Player is a CONNECTED
  Node of minimum load (active-player count) among the CONNECTED Nodes, and of these the
  first in configuration order: every CONNECTED Node before it has a strictly greater
  load and every CONNECTED Node after it a load at least as great. When no Node is
  CONNECTED the selection yields no node: the Player is created with an undefined node
  reference, never with an arbitrary or disconnected Node.
\<close>

theorem least_loaded_connected_node:
  "(node (Player_new v opts) = Undefined
      \<longleftrightarrow> (\<forall>a\<in>set (nodes v). Node.state (node_at v a) \<noteq> NodeState_CONNECTED))
   \<and> node (Player_new v opts) \<noteq> Null
   \<and> (\<forall>a. node (Player_new v opts) = Obj a \<longrightarrow>
          Node.state (node_at v a) = NodeState_CONNECTED
          \<and> (\<exists>pre post. nodes v = pre @ a # post
                \<and> (\<forall>b\<in>set pre. Node.state (node_at v b) = NodeState_CONNECTED
                       \<longrightarrow> players_at v a < players_at v b)
                \<and> (\<forall>b\<in>set post. Node.state (node_at v b) = NodeState_CONNECTED
                       \<longrightarrow> players_at v a \<le> players_at v b)))"
proof -
  have n: "node (Player_new v opts) = select_node v" by (simp add: Player_new_def)
  have "select_node v = Undefined
      \<longleftrightarrow> (\<forall>a\<in>set (nodes v). Node.state (node_at v a) \<noteq> NodeState_CONNECTED)"
    by (simp add: select_node_cases(1) filter_empty_conv)
  then show ?thesis
    unfolding n using select_node_cases(2) [of v] select_node_Obj [of v] by blast
qed

theorem least_loaded_connected_node_witness:
  "node (Player_new three_nodes example_player_options) = Obj 0
   \<and> players_at three_nodes 0 = 5
   \<and> Node.state (node_at three_nodes 0) = NodeState_CONNECTED
   \<and> node (Player_new two_connected example_player_options) = Obj 0
   \<and> node (Player_new none_connected example_player_options) = Undefined"
proof -
  have sel: "node (Player_new three_nodes example_player_options) = Obj 0"
    "node (Player_new two_connected example_player_options) = Obj 0"
    by (simp_all add: Player_new_def three_nodes_select two_connected_select)
  have load: "players_at three_nodes 0 = 5"
    by (simp add: three_nodes_def)
  have none: "\<forall>a\<in>set (nodes none_connected).
      Node.state (node_at none_connected a) \<noteq> NodeState_CONNECTED"
    by (simp add: none_connected_def Node_new_def)
  show ?thesis
    using least_loaded_connected_node [of three_nodes example_player_options]
      least_loaded_connected_node [of none_connected example_player_options]
      sel load none
    by simp
qed

text \<open>
  Creation does not fail when no Node is CONNECTED: the constructor returns a Player
  whose node reference is undefined, and \<^verbatim>\<open>connect()\<close> on that Player goes ahead to
  CONNECTING and sends the join request.
\<close>

theorem no_node_connected_counterexample:
  "node (Player_new none_connected example_player_options) = Undefined
   \<and> Player_connect (Player_new none_connected example_player_options)
       = Returns (Player_new none_connected example_player_options\<lparr> state := State_CONNECTING \<rparr>)
           [sendWS ''g'' (joinVoice ''g'' ''vc'' False False)]"
  by (simp add: Player_new_def none_connected_select Player_connect_def
        example_player_options_def)

section \<open>The Player: position\<close>

text \<open>
  C8. \<^verbatim>\<open>exactPosition\<close> is \<open>position + (now - positionTimestamp)\<close>, and with the position
  and its timestamp held fixed a later reading of the clock never gives a smaller value.
\<close>

theorem exactPosition_monotone:
  "exactPosition now p = position p + (now - positionTimestamp p)
   \<and> (t1 \<le> t2 \<longrightarrow> exactPosition t1 p \<le> exactPosition t2 p)"
  by (simp add: exactPosition_def)

theorem exactPosition_monotone_witness:
  "exactPosition 1000 (fresh_player\<lparr> position := 40, positionTimestamp := 900 \<rparr>) = 140
   \<and> exactPosition 1000 (fresh_player\<lparr> position := 40, positionTimestamp := 900 \<rparr>)
       \<le> exactPosition 1250 (fresh_player\<lparr> position := 40, positionTimestamp := 900 \<rparr>)"
  using exactPosition_monotone
          [of 1000 "fresh_player\<lparr> position := 40, positionTimestamp := 900 \<rparr>" 1000 1250]
  by simp

section \<open>Facts about the example objects\<close>

lemma fresh_player_simps:
  "node fresh_player = Obj 0"
  "guildId fresh_player = ''g''"
  "voiceChannelId fresh_player = ''vc''"
  "selfDeaf fresh_player = False"
  "selfMute fresh_player = False"
  "current fresh_player = Null"
  "queue fresh_player = []"
  "trackRepeat fresh_player = False"
  "playing fresh_player = False"
  "position fresh_player = 0"
  "positionTimestamp fresh_player = 0"
  "state fresh_player = State_DISCONNECTED"
  "voiceState fresh_player = []"
  "moving fresh_player = None"
  by (simp_all add: fresh_player_def Player_new_def example_player_options_def
        two_connected_select)

lemma two_connected_simps:
  "node_at two_connected a = connected_node"
  by (simp add: two_connected_def)

lemma send_on_connected_node:
  "effects_of (Node_send payload connected_node) = [WsSend payload]"
  by (simp add: Node_send_def connected_node_simps)

lemma connecting_player_simps:
  "node connecting_player = Obj 0"
  "guildId connecting_player = ''g''"
  "current connecting_player = Null"
  "queue connecting_player = []"
  "playing connecting_player = False"
  "position connecting_player = 0"
  "state connecting_player = State_CONNECTING"
  "voiceState connecting_player = [(''sessionId'', ''s1'')]"
  by (simp_all add: connecting_player_def Player_connect_def fresh_player_simps)

lemma playing_player_simps:
  "node playing_player = Obj 0"
  "guildId playing_player = ''g''"
  "current playing_player = Obj track_A"
  "playing playing_player = True"
  "position playing_player = 1234"
  "state playing_player = State_CONNECTED"
  "voiceState playing_player = [(''sessionId'', ''s1'')]"
  by (simp_all add: playing_player_def connecting_player_simps)

lemma three_nodes_second: "Node.state (node_at three_nodes (Suc 0)) = NodeState_DISCONNECTED"
  by (simp add: three_nodes_def Node_new_def)

section \<open>The Player: play\<close>

text \<open>
  C6, as the code has it. \<^verbatim>\<open>play()\<close> fails when no Node is assigned, and fails with the
  empty-queue error when there is no current track, track-repeat is disabled and the
  queue is empty. Otherwise, whenever there is no current track, or there is one but
  track-repeat is disabled, and the queue is not empty, it takes the track at the front
  of the queue, makes it the current track and then sends the play command for it. In
  particular \<^verbatim>\<open>play()\<close> with no current track, track-repeat off and queue \<open>[A, B]\<close> sets
  the current track to \<open>A\<close> and leaves the queue \<open>[B]\<close>.
\<close>

theorem play_advances_queue:
  "(node p = Null \<longrightarrow> Player_play v opts p = Throws (Error ''No available nodes!'') p [])
   \<and> (node p = Undefined \<longrightarrow> \<not> returned (Player_play v opts p))
   \<and> (node p \<noteq> Null \<and> \<not> truthy_ref (current p) \<and> \<not> trackRepeat p \<and> queue p = [] \<longrightarrow>
        Player_play v opts p = Throws (Error ''The queue is empty!'') p [])
   \<and> (node p = Obj a \<and> (\<not> truthy_ref (current p) \<or> \<not> trackRepeat p) \<and> queue p = t # ts \<longrightarrow>
        Player_play v opts p
          = Returns (p\<lparr> queue := ts, current := Obj t \<rparr>)
              (map (OnNode a) (effects_of (Node_send (play_payload opts p t) (node_at v a)))))"
  by (cases "node p"; cases "current p")
     (auto simp: Player_play_def shift_into_current_def node_send_def play_payload_def Let_def
           split: list.splits)

theorem play_advances_queue_witness:
  "Player_play two_connected None (fresh_player\<lparr> queue := [track_A, track_B] \<rparr>)
     = Returns (fresh_player\<lparr> queue := [track_B], current := Obj track_A \<rparr>)
         [OnNode 0 (WsSend (play ''g'' ''QAAA'' None None None))]
   \<and> Player_play two_connected None (fresh_player\<lparr> node := Null \<rparr>)
       = Throws (Error ''No available nodes!'') (fresh_player\<lparr> node := Null \<rparr>) []
   \<and> Player_play two_connected None fresh_player
       = Throws (Error ''The queue is empty!'') fresh_player []
   \<and> \<not> returned (Player_play two_connected None
                    (fresh_player\<lparr> node := Undefined, queue := [track_A] \<rparr>))"
  using play_advances_queue
          [of "fresh_player\<lparr> queue := [track_A, track_B] \<rparr>" two_connected None 0 track_A "[track_B]"]
    play_advances_queue [of "fresh_player\<lparr> node := Null \<rparr>" two_connected None]
    play_advances_queue [of fresh_player two_connected None]
    play_advances_queue
          [of "fresh_player\<lparr> node := Undefined, queue := [track_A] \<rparr>" two_connected None]
  by (simp add: fresh_player_simps two_connected_simps send_on_connected_node play_payload_def
        track_A_def)

text \<open>
  The condition on the queue is needed: with a current track, track-repeat off and an
  empty queue there is no track to take, no play command is sent and the call ends in a
  TypeError.
\<close>

theorem play_current_no_repeat_empty_queue_counterexample:
  "Player_play two_connected None (fresh_player\<lparr> current := Obj track_A \<rparr>)
     = Throws (TypeError_reading ''encodedTrack'') (fresh_player\<lparr> current := Undefined \<rparr>) []"
  by (simp add: Player_play_def shift_into_current_def fresh_player_simps)

text \<open>
  C10. When \<^verbatim>\<open>play()\<close> is called (with a Node assigned) while there is a current track,
  track-repeat is disabled and the queue is empty, the empty-queue error is not raised.
  The current track is replaced by what the empty queue gives, \<^verbatim>\<open>undefined\<close>, and reading
  its \<^verbatim>\<open>encodedTrack\<close> for the play command raises a TypeError; nothing is sent.
\<close>

theorem play_with_empty_queue:
  "(node p \<noteq> Null \<and> current p = Obj t \<and> \<not> trackRepeat p \<and> queue p = [] \<longrightarrow>
      \<not> returned (Player_play v opts p)
      \<and> Player_play v opts p \<noteq> Throws (Error ''The queue is empty!'') p []
      \<and> current (state_of (Player_play v opts p)) = Undefined
      \<and> effects_of (Player_play v opts p) = [])
   \<and> (node p = Obj a \<and> current p = Obj t \<and> \<not> trackRepeat p \<and> queue p = [] \<longrightarrow>
        Player_play v opts p
          = Throws (TypeError_reading ''encodedTrack'') (p\<lparr> current := Undefined \<rparr>) [])"
  by (cases "node p")
     (auto simp: Player_play_def shift_into_current_def node_send_def Let_def)

theorem play_with_empty_queue_witness:
  "\<not> returned (Player_play two_connected None (fresh_player\<lparr> current := Obj track_B \<rparr>))
   \<and> current (state_of (Player_play two_connected None (fresh_player\<lparr> current := Obj track_B \<rparr>)))
       = Undefined
   \<and> Player_play two_connected None (fresh_player\<lparr> current := Obj track_B \<rparr>)
       = Throws (TypeError_reading ''encodedTrack'') (fresh_player\<lparr> current := Undefined \<rparr>) []"
  using play_with_empty_queue
          [of "fresh_player\<lparr> current := Obj track_B \<rparr>" track_B two_connected None 0]
  by (simp add: fresh_player_simps)

section \<open>The Player: status reports and migration\<close>

lemma updatePlayer_facts:
  "returned (updatePlayer report p)"
  "effects_of (updatePlayer report p) = []"
  "state (state_of (updatePlayer report p))
     = (if connected report then State_CONNECTED else State_DISCONNECTED)"
  "positionTimestamp (state_of (updatePlayer report p)) = positionTimestamp p"
  "position (state_of (updatePlayer report p))
     = (case PlayerState.position report of
          Some x \<Rightarrow> if x \<noteq> 0 then x else position p | None \<Rightarrow> position p)"
  by (simp_all add: updatePlayer_def Let_def split: option.splits)

lemma connecting_to_connected:
  assumes "state p = State_CONNECTING"
    and "state (state_of (Player_step v op p)) = State_CONNECTED"
  shows "(\<exists>report. op = UpdatePlayer report \<and> connected report)
     \<or> (\<exists>a. op = MoveNode (Obj a) \<and> voiceState p \<noteq> [])"
proof (cases op)
  case Connect
  then show ?thesis using assms by (simp add: Player_connect_def split: if_splits)
next
  case Disconnect
  then show ?thesis using assms by (simp add: Player_disconnect_def)
next
  case Destroy
  then show ?thesis using assms
    by (cases "node p"; simp add: Player_destroy_def Player_disconnect_def node_send_def)
next
  case (MoveNode target)
  then show ?thesis using assms
    by (cases target; cases "node p"; cases "current p")
       (auto simp: Player_moveNode_def node_send_def sendVoiceUpdate_def split: if_splits)
next
  case (Play opts)
  then show ?thesis using assms
    by (cases "node p"; cases "current p"; cases "queue p")
       (auto simp: Player_play_def shift_into_current_def node_send_def Let_def
             split: if_splits)
next
  case (SetTrackLoop b)
  then show ?thesis using assms by (simp add: setTrackLoop_def)
next
  case (SetQueueLoop b)
  then show ?thesis using assms by (simp add: setQueueLoop_def)
next
  case (Skip amount)
  then show ?thesis using assms
    by (cases "node p") (auto simp: Player_skip_def node_send_def Let_def split: if_splits)
next
  case (Pause arg)
  then show ?thesis using assms
    by (cases arg; cases "node p") (auto simp: Player_pause_def node_send_def)
next
  case (Seek arg)
  then show ?thesis using assms
    by (cases arg; cases "node p"; cases "current p")
       (auto simp: Player_seek_def Player_skip_def node_send_def Let_def split: if_splits)
next
  case SendVoiceUpdate
  then show ?thesis using assms
    by (cases "node p") (auto simp: sendVoiceUpdate_def node_send_def)
next
  case (UpdatePlayer report)
  then show ?thesis using assms by (simp add: updatePlayer_facts split: if_splits)
qed

text \<open>
  C2, as the code has it. \<^verbatim>\<open>updatePlayer(state)\<close> always returns. When the report carries
  a position other than zero the Player's position is set to it, and when it carries none
  the position is kept. The transport state moves to CONNECTED exactly when the report
  says connected and it was not already CONNECTED, and to DISCONNECTED exactly when the
  report says not connected and it was not already DISCONNECTED. Among the calls on a
  Player, only \<^verbatim>\<open>updatePlayer\<close> with a connected report and \<^verbatim>\<open>moveNode\<close> with voice
  credentials present take it from CONNECTING to CONNECTED.
\<close>

theorem updatePlayer_report:
  "returned (updatePlayer report p)
   \<and> (\<forall>x. PlayerState.position report = Some x \<and> x \<noteq> 0 \<longrightarrow>
          position (state_of (updatePlayer report p)) = x)
   \<and> (PlayerState.position report = None \<longrightarrow>
          position (state_of (updatePlayer report p)) = position p)
   \<and> state (state_of (updatePlayer report p))
       = (if connected report then State_CONNECTED else State_DISCONNECTED)
   \<and> (state (state_of (updatePlayer report p)) \<noteq> state p
        \<longleftrightarrow> (connected report \<and> state p \<noteq> State_CONNECTED)
            \<or> (\<not> connected report \<and> state p \<noteq> State_DISCONNECTED))
   \<and> (\<forall>v op. state p = State_CONNECTING
          \<and> state (state_of (Player_step v op p)) = State_CONNECTED \<longrightarrow>
          (\<exists>r. op = UpdatePlayer r \<and> connected r)
          \<or> (\<exists>a. op = MoveNode (Obj a) \<and> voiceState p \<noteq> []))"
proof (intro conjI allI impI)
  show "(state (state_of (updatePlayer report p)) \<noteq> state p)
        = (connected report \<and> state p \<noteq> State_CONNECTED
           \<or> \<not> connected report \<and> state p \<noteq> State_DISCONNECTED)"
    by (auto simp: updatePlayer_facts)
next
  fix v op
  assume "state p = State_CONNECTING \<and> state (state_of (Player_step v op p)) = State_CONNECTED"
  then show "(\<exists>r. op = UpdatePlayer r \<and> connected r)
     \<or> (\<exists>a. op = MoveNode (Obj a) \<and> voiceState p \<noteq> [])"
    using connecting_to_connected [of p v op] by blast
qed (simp_all add: updatePlayer_facts)

theorem updatePlayer_report_witness:
  "position (state_of (updatePlayer \<lparr> PlayerState.position = Some 1500, connected = True \<rparr> connecting_player))
     = 1500
   \<and> state (state_of (updatePlayer \<lparr> PlayerState.position = Some 1500, connected = True \<rparr> connecting_player))
       = State_CONNECTED
   \<and> state (state_of (Player_step two_connected
                (UpdatePlayer \<lparr> PlayerState.position = None, connected = True \<rparr>) connecting_player))
       = State_CONNECTED"
  using updatePlayer_report [of "\<lparr> PlayerState.position = Some 1500, connected = True \<rparr>" connecting_player]
    updatePlayer_report [of "\<lparr> PlayerState.position = None, connected = True \<rparr>" connecting_player]
  by simp

text \<open>
  Three things the code does otherwise: \<^verbatim>\<open>updatePlayer\<close> leaves \<^verbatim>\<open>positionTimestamp\<close>
  at the 0 of the constructor, whatever the time of the call; a reported position of 0 is
  not stored; and \<^verbatim>\<open>moveNode\<close> takes a CONNECTING Player with voice credentials to
  CONNECTED.
\<close>

theorem updatePlayer_counterexample:
  "positionTimestamp
     (state_of (updatePlayer \<lparr> PlayerState.position = Some 1500, connected = True \<rparr> connecting_player)) = 0
   \<and> position
       (state_of (updatePlayer \<lparr> PlayerState.position = Some 0, connected = True \<rparr>
          (connecting_player\<lparr> position := 7 \<rparr>))) = 7
   \<and> state connecting_player = State_CONNECTING
   \<and> state (state_of (Player_moveNode two_connected (Obj 1) connecting_player))
       = State_CONNECTED"
  by (simp add: updatePlayer_def Player_moveNode_def sendVoiceUpdate_def node_send_def
        connecting_player_simps two_connected_simps connected_node_simps
        connecting_player_def Player_connect_def fresh_player_simps)

text \<open>
  C4, as the code has it. \<^verbatim>\<open>moveNode(target)\<close> fails when the target is missing or not
  CONNECTED, and does nothing when the target is the Player's current Node. Otherwise,
  for a Player that holds a Node, it sets the moving flag, sends a destroy command for the
  guild through the old Node, makes the target the Player's Node, and, when voice
  credentials are present, sends the voice update through the new Node and marks the
  Player CONNECTED. When the Player is playing and has a current track, it then sends the
  new Node a play command for that track whose \<^verbatim>\<open>startTime\<close> is the position at the time
  of the call; the moving flag has not become false by then and is still set when the
  call returns. Otherwise no play command is sent and the moving flag becomes false at
  once.
\<close>

theorem moveNode_migrates:
  "(\<not> truthy_ref target \<longrightarrow>
      Player_moveNode v target p
        = Throws (TypeError ''You must provide a Node instance.'') p [])
   \<and> (target = Obj a \<and> Node.state (node_at v a) \<noteq> NodeState_CONNECTED \<longrightarrow>
        Player_moveNode v target p
          = Throws (Error ''The provided node is not connected.'') p [])
   \<and> (target = Obj a \<and> Node.state (node_at v a) = NodeState_CONNECTED \<and> node p = Obj a \<longrightarrow>
        Player_moveNode v target p = Returns p [])
   \<and> (target = Obj a \<and> Node.state (node_at v a) = NodeState_CONNECTED
        \<and> node p = Obj old \<and> old \<noteq> a \<longrightarrow>
        Player_moveNode v target p
          = Returns
              (p\<lparr> node := Obj a,
                  state := (if voiceState p \<noteq> [] then State_CONNECTED else state p),
                  moving := Some (playing p \<and> truthy_ref (current p)) \<rparr>)
              (map (OnNode old) (effects_of (Node_send (destroy (guildId p)) (node_at v old)))
               @ (if voiceState p \<noteq> []
                  then map (OnNode a)
                         (effects_of (Node_send (voiceUpdate (guildId p) (voiceState p))
                                        (node_at v a)))
                  else [])
               @ (case current p of
                    Obj t \<Rightarrow>
                      if playing p
                      then map (OnNode a)
                             (effects_of
                                (Node_send
                                   (play (guildId p) (encodedTrack t) (Some (position p))
                                      None None)
                                   (node_at v a)))
                      else []
                  | Undefined \<Rightarrow> []
                  | Null \<Rightarrow> [])))"
  by (cases target; cases "current p")
     (auto simp: Player_moveNode_def node_send_def sendVoiceUpdate_def)

theorem moveNode_migrates_witness:
  "Player_moveNode two_connected (Obj 1) playing_player
     = Returns (playing_player\<lparr> node := Obj 1, moving := Some True \<rparr>)
         [OnNode 0 (WsSend (destroy ''g'')),
          OnNode 1 (WsSend (voiceUpdate ''g'' [(''sessionId'', ''s1'')])),
          OnNode 1 (WsSend (play ''g'' ''QAAA'' (Some 1234) None None))]
   \<and> Player_moveNode two_connected Null playing_player
       = Throws (TypeError ''You must provide a Node instance.'') playing_player []
   \<and> Player_moveNode three_nodes (Obj 1) playing_player
       = Throws (Error ''The provided node is not connected.'') playing_player []
   \<and> Player_moveNode two_connected (Obj 0) playing_player = Returns playing_player []"
  using moveNode_migrates [of "Obj 1" two_connected playing_player 1 0]
    moveNode_migrates [of Null two_connected playing_player]
    moveNode_migrates [of "Obj 1" three_nodes playing_player 1]
    moveNode_migrates [of "Obj 0" two_connected playing_player 0]
  by (simp add: playing_player_simps two_connected_simps connected_node_simps
        send_on_connected_node three_nodes_second track_A_def)

text \<open>
  A Player that is playing but has no current track gets no play command on the new Node,
  and its moving flag is cleared. And a Player that holds no Node is not moved: the call
  sets the moving flag and ends in a TypeError, with the node reference left undefined.
\<close>

theorem moveNode_playing_without_track_counterexample:
  "playing (fresh_player\<lparr> playing := True \<rparr>)
   \<and> Player_moveNode two_connected (Obj 1) (fresh_player\<lparr> playing := True \<rparr>)
       = Returns (fresh_player\<lparr> node := Obj 1, playing := True, moving := Some False \<rparr>)
           [OnNode 0 (WsSend (destroy ''g''))]
   \<and> node nodeless_player = Undefined
   \<and> Node.state (node_at two_connected 1) = NodeState_CONNECTED
   \<and> Player_moveNode two_connected (Obj 1) nodeless_player
       = Throws (TypeError_reading ''send'') (nodeless_player\<lparr> moving := Some True \<rparr>) []"
  by (simp add: Player_moveNode_def node_send_def fresh_player_simps two_connected_simps
        connected_node_simps send_on_connected_node nodeless_player_def Player_new_def
        none_connected_select)

end
